theory Spec2Isabelle
  imports Main "HOL-Library.Word"
begin

unbundle bit_operations_syntax

section \<open>Bytes and errors\<close>

text \<open>
  A Python \<open>bytes\<close> object is a sequence of integers in \<open>range(256)\<close>: a list of
  8-bit words. Python integers are unbounded: the accumulators of the checksum are \<open>nat\<close>
  (they never go negative) and are masked to 8 bits where the source masks them.
\<close>

type_synonym byte = "8 word"

type_synonym bytes = "byte list"

section \<open>The Fletcher checksum\<close>

text \<open>
  \<^verbatim>\<open>
  def fletcher_checksum(msg):
      CK_A = CK_B = 0
      # start at class (byte 2)
      for i in range(2, len(msg)):
          CK_A += msg[i]
          CK_B += CK_A
      CK_A &= 0xFF
      CK_B &= 0xFF
      return bytes([CK_A]) + bytes([CK_B])
  \<close>
  The loop runs over the indices \<open>2 ..< len(msg)\<close>, all of them in range.
\<close>

definition fletcher_step :: "bytes \<Rightarrow> nat \<times> nat \<Rightarrow> nat \<Rightarrow> nat \<times> nat" where
  "fletcher_step msg acc i =
     (case acc of (CK_A, CK_B) \<Rightarrow>
        (let CK_A' = CK_A + unat (msg ! i) in (CK_A', CK_B + CK_A')))"

definition fletcher_checksum :: "bytes \<Rightarrow> bytes" where
  "fletcher_checksum msg =
     (case foldl (fletcher_step msg) (0, 0) [2 ..< length msg] of (CK_A, CK_B) \<Rightarrow>
        [word_of_nat (CK_A AND 255), word_of_nat (CK_B AND 255)])"

text \<open>
  The recurrence of the specification, in its own words: two 8-bit accumulators, both
  starting at 0, and for each byte \<open>b\<close> in order \<open>A = (A + b) mod 256\<close>,
  \<open>B = (B + A) mod 256\<close>.
\<close>

definition fletcher_recurrence_step :: "nat \<times> nat \<Rightarrow> byte \<Rightarrow> nat \<times> nat" where
  "fletcher_recurrence_step acc b =
     (case acc of (A, B) \<Rightarrow>
        (let A' = (A + unat b) mod 256 in (A', (B + A') mod 256)))"

definition fletcher_recurrence :: "bytes \<Rightarrow> bytes" where
  "fletcher_recurrence s =
     (case foldl fletcher_recurrence_step (0, 0) s of (A, B) \<Rightarrow>
        [word_of_nat A, word_of_nat B])"

text \<open>
  A Python \<open>str\<close> is a sequence of Unicode code points, and \<open>ord\<close> of a character is its
  code point: a list of natural numbers. \<open>of_ascii\<close> writes an ASCII literal.
\<close>

type_synonym str = "nat list"


section \<open>Exceptions\<close>

text \<open>
  Every \<open>raise\<close> of the source, and every exception a built-in can raise on the paths
  modelled, is a value. A \<open>ValueError\<close> carries what its message is formatted from; the
  parser catches \<open>ValueError\<close> and nothing else.
\<close>

datatype value_error =
    WrongChecksum bytes bytes \<comment> \<open>\<open>wrong checksum {list(checksum)} is not {list(data[-2:])}\<close>\<close>
  | IncorrectLength nat nat \<comment> \<open>\<open>payload length is incorrect ({len(payload)} != {length})\<close>\<close>
  | OddArguments \<comment> \<open>\<open>Number of arguments must be even!\<close>\<close>
  | BytesRange \<comment> \<open>\<open>bytes([n])\<close> with \<open>n\<close> outside \<open>range(256)\<close>\<close>
  | IntMaxStrDigits \<comment> \<open>formatting an \<open>int\<close> of more digits than the interpreter's limit\<close>
  | OtherMessage string \<comment> \<open>a \<open>ValueError\<close> raised by the code of an argument object\<close>
  | Unpack nat \<comment> \<open>unpacking \<open>data.split('*')\<close> into two names, with the number of parts\<close>
  | InvalidLiteral "nat list" \<comment> \<open>\<open>int(s, 16)\<close> on a string that is no literal\<close>
  | NmeaChecksum string string \<comment> \<open>\<open>checksum {checksum} is not {parsed_checksum}\<close>\<close>
  | UnicodeDecode \<comment> \<open>\<open>data.decode()\<close>; \<open>UnicodeDecodeError\<close> is a \<open>ValueError\<close>\<close>

datatype error =
    ValueError value_error
  | IndexError
  | KeyError "nat list" \<comment> \<open>the key, a \<open>str\<close> given by its code points\<close>
  | TypeError
  | OtherException string \<comment> \<open>any other exception raised by the code of an argument object\<close>

section \<open>The message registry\<close>

text \<open>
  \<open>ubx_msg_dict\<close> maps a class byte to a dictionary holding the class name under the key
  \<open>"classname"\<close> and the names of the ids of the class under one-byte keys. The two kinds
  of key of the inner dictionary are kept apart: an entry is the class name and the list of
  named ids.
\<close>

definition ubx_msg_dict :: "(byte \<times> string \<times> (byte \<times> string) list) list" where
  "ubx_msg_dict =
     [(0x01, ''NAV'', []),
      (0x02, ''RXM'', [(0x14, ''MEASX''), (0x41, ''PMREQ''), (0x15, ''RAWX''),
                       (0x59, ''RLM''), (0x13, ''SFRBX'')]),
      (0x04, ''INF'', []),
      (0x05, ''ACK'', [(0x00, ''NAK''), (0x01, ''ACK'')]),
      (0x06, ''CFG'', []),
      (0x09, ''UPD'', []),
      (0x0A, ''MON'', []),
      (0x0D, ''TIM'', []),
      (0x13, ''MGA'', []),
      (0x21, ''LOG'', []),
      (0x27, ''SEC'', [])]"

datatype dict_key = Classname | Id byte

text \<open>
  \<^verbatim>\<open>
  def safeget(dict, *keys):
      for key in keys:
          try:
              dict = dict[key]
          except KeyError:
              return None
      return dict
  \<close>
  It is called with a class byte and then either \<open>"classname"\<close> or an id byte.
\<close>

definition safeget ::
  "(byte \<times> string \<times> (byte \<times> string) list) list \<Rightarrow> byte \<Rightarrow> dict_key \<Rightarrow> string option" where
  "safeget dict k1 k2 =
     (case map_of dict k1 of
        None \<Rightarrow> None
      | Some (classname, ids) \<Rightarrow>
          (case k2 of Classname \<Rightarrow> Some classname | Id i \<Rightarrow> map_of ids i))"

text \<open>\<open>x or "unknown"\<close>: \<open>None\<close> and the empty string are false.\<close>

definition or_unknown :: "string option \<Rightarrow> string" where
  "or_unknown x = (case x of None \<Rightarrow> ''unknown'' | Some n \<Rightarrow> if n = [] then ''unknown'' else n)"


section \<open>Decoding a UBX frame\<close>

text \<open>The class attribute \<open>sync = b'\xB5\x62'\<close>.\<close>

definition sync :: bytes where
  "sync = [0xB5, 0x62]"

text \<open>\<open>int.from_bytes(bs, 'little')\<close>.\<close>

definition from_bytes_little :: "bytes \<Rightarrow> nat" where
  "from_bytes_little bs = foldr (\<lambda>b acc. unat b + 256 * acc) bs 0"

text \<open>
  The attributes an instance of \<open>UBX_message\<close> has after \<open>__init__\<close> returned. (The class
  attribute \<open>checksum\<close> is never assigned and stays \<open>None\<close>.)
\<close>

record UBX_message =
  correct :: bool
  raw_data :: bytes
  ubx_class :: byte
  ubx_class_name :: string
  ubx_id :: byte
  ubx_id_name :: string
  ubx_length :: nat
  payload :: bytes

text \<open>
  \<^verbatim>\<open>
  def __init__(self, data):
      if type(data) == list:
          data = bytes(data)
      if data[:2] == self.sync:
          data = data[2:]
      self.raw_data = self.sync+data
      checksum = fletcher_checksum(self.raw_data[:-2])
      if list(checksum) != list(data[-2:]):
          raise ValueError(f"wrong checksum ...")
      else:
          self.correct = True
          self.ubx_class = data[0]
          self.ubx_class_name = safeget(ubx_msg_dict, bytes([self.ubx_class]), "classname") or "unknown"
          self.ubx_id = data[1]
          self.ubx_id_name = safeget(ubx_msg_dict, bytes([self.ubx_class]), bytes([self.ubx_id])) or "unknown"
          self.length = int.from_bytes(data[2:4], 'little')
          self.payload = data[4:-2]
          if (len(self.payload) != self.length):
              raise ValueError(f"payload length is incorrect ...")
  \<close>
  Python slices never raise: \<open>xs[:-2]\<close> is \<open>take (length xs - 2) xs\<close>, \<open>xs[-2:]\<close> is
  \<open>drop (length xs - 2) xs\<close> (the whole of a shorter \<open>xs\<close>), with the truncating
  subtraction of \<open>nat\<close>, and \<open>xs[4:-2]\<close> is \<open>drop 4 (take (length xs - 2) xs)\<close>. The index
  reads \<open>data[0]\<close> and \<open>data[1]\<close> raise \<open>IndexError\<close> out of range.
\<close>

definition strip_sync :: "bytes \<Rightarrow> bytes" where
  "strip_sync data = (if take 2 data = sync then drop 2 data else data)"

definition UBX_message_init :: "bytes \<Rightarrow> error + UBX_message" where
  "UBX_message_init data0 =
     (let data = strip_sync data0;
          raw = sync @ data;
          checksum = fletcher_checksum (take (length raw - 2) raw);
          given = drop (length data - 2) data
      in if checksum \<noteq> given then Inl (ValueError (WrongChecksum checksum given))
         else if length data \<le> 0 then Inl IndexError
         else if length data \<le> 1 then Inl IndexError
         else
           (let cls = data ! 0;
                ident = data ! 1;
                len = from_bytes_little (take 2 (drop 2 data));
                pl = drop 4 (take (length data - 2) data)
            in if length pl \<noteq> len then Inl (ValueError (IncorrectLength (length pl) len))
               else Inr \<lparr>correct = True, raw_data = raw, ubx_class = cls,
                         ubx_class_name = or_unknown (safeget ubx_msg_dict cls Classname),
                         ubx_id = ident,
                         ubx_id_name = or_unknown (safeget ubx_msg_dict cls (Id ident)),
                         ubx_length = len, payload = pl\<rparr>))"

section \<open>Building UBX frames\<close>

text \<open>\<open>bytes([n])\<close>: one byte, or \<open>ValueError\<close> when \<open>n\<close> is not in \<open>range(256)\<close>.\<close>

definition bytes_of_int :: "int \<Rightarrow> error + bytes" where
  "bytes_of_int n = (if 0 \<le> n \<and> n < 256 then Inr [word_of_int n] else Inl (ValueError BytesRange))"

text \<open>
  \<^verbatim>\<open>
  def ubx_msg(self, c, id, payload):
      sync = b'\xB5\x62'
      print("payload", list(payload))
      length = bytes([len(payload)])
      if (len(length) < 2):
          length += b'\x00'
      msg = sync+c+id+length+payload
      checksum = fletcher_checksum(msg)
      msg += checksum
      return msg
  \<close>
  \<open>c\<close> and \<open>id\<close> are \<open>bytes\<close> objects (\<open>b'\x06'\<close>, \<open>b'\x8A'\<close>) and are concatenated as they
  are. The \<open>print\<close> is not modelled.
\<close>

definition ubx_msg :: "bytes \<Rightarrow> bytes \<Rightarrow> bytes \<Rightarrow> error + bytes" where
  "ubx_msg c ident pl =
     (case bytes_of_int (int (length pl)) of
        Inl e \<Rightarrow> Inl e
      | Inr length0 \<Rightarrow>
          (let length1 = (if length length0 < 2 then length0 @ [0x00] else length0);
               msg = sync @ c @ ident @ length1 @ pl;
               checksum = fletcher_checksum msg
           in Inr (msg @ checksum)))"

text \<open>
  The serial port is the byte sink: \<open>self.port.write(msg)\<close> appends \<open>msg\<close> to what was
  written before. The builders take the bytes written so far and return the exception
  raised, if any, together with the bytes written after the call.
  \<^verbatim>\<open>
  def reset(self):
      '''force-reset the receiver. This will reset all configuration to default'''
      msg = self.ubx_msg(b'\x06', b'\x04', b'\x00\x00\x00\x00')
      print(f"msg:{msg}")
      self.port.write(msg)
  \<close>
  Formatting and printing a \<open>bytes\<close> object does not raise; the \<open>print\<close> is not modelled.
\<close>

definition reset :: "bytes \<Rightarrow> error option \<times> bytes" where
  "reset tx =
     (case ubx_msg [0x06] [0x04] [0x00, 0x00, 0x00, 0x00] of
        Inl e \<Rightarrow> (Some e, tx)
      | Inr msg \<Rightarrow> (None, tx @ msg))"







section \<open>Text\<close>

text \<open>
  \<open>data.decode()\<close>: strict UTF-8. A byte sequence that is not well-formed UTF-8 (a stray
  continuation byte, an overlong form, a surrogate, a code point above \<open>10FFFF\<close>, a
  truncated sequence) raises \<open>UnicodeDecodeError\<close>, here \<open>None\<close>.
\<close>

definition cont :: "nat \<Rightarrow> bool" where
  "cont b = (0x80 \<le> b \<and> b \<le> 0xBF)"

fun utf8 :: "nat list \<Rightarrow> str option" where
  "utf8 [] = Some []"
| "utf8 (b0 # bs) =
     (if b0 < 0x80 then map_option ((#) b0) (utf8 bs)
      else if 0xC2 \<le> b0 \<and> b0 \<le> 0xDF then
        (case bs of
           b1 # r \<Rightarrow>
             if cont b1 then map_option ((#) ((b0 - 0xC0) * 64 + (b1 - 0x80))) (utf8 r)
             else None
         | _ \<Rightarrow> None)
      else if 0xE0 \<le> b0 \<and> b0 \<le> 0xEF then
        (case bs of
           b1 # b2 # r \<Rightarrow>
             if (if b0 = 0xE0 then 0xA0 \<le> b1 \<and> b1 \<le> 0xBF
                 else if b0 = 0xED then 0x80 \<le> b1 \<and> b1 \<le> 0x9F
                 else cont b1) \<and> cont b2
             then map_option ((#) ((b0 - 0xE0) * 4096 + (b1 - 0x80) * 64 + (b2 - 0x80))) (utf8 r)
             else None
         | _ \<Rightarrow> None)
      else if 0xF0 \<le> b0 \<and> b0 \<le> 0xF4 then
        (case bs of
           b1 # b2 # b3 # r \<Rightarrow>
             if (if b0 = 0xF0 then 0x90 \<le> b1 \<and> b1 \<le> 0xBF
                 else if b0 = 0xF4 then 0x80 \<le> b1 \<and> b1 \<le> 0x8F
                 else cont b1) \<and> cont b2 \<and> cont b3
             then map_option
                    ((#) ((b0 - 0xF0) * 262144 + (b1 - 0x80) * 4096 + (b2 - 0x80) * 64 + (b3 - 0x80)))
                    (utf8 r)
             else None
         | _ \<Rightarrow> None)
      else None)"

definition decode :: "bytes \<Rightarrow> str option" where
  "decode data = utf8 (map unat data)"

text \<open>\<open>data.split(sep)\<close> for a one-character separator: always at least one part.\<close>

fun split :: "'a \<Rightarrow> 'a list \<Rightarrow> 'a list list" where
  "split sep [] = [[]]"
| "split sep (x # xs) =
     (if x = sep then [] # split sep xs
      else (case split sep xs of p # ps \<Rightarrow> (x # p) # ps | [] \<Rightarrow> [[x]]))"

text \<open>
  \<open>hex(n)\<close>: an optional minus sign, \<open>0x\<close>, and the digits of \<open>|n|\<close> in base 16, in lower
  case, without leading zeros.
\<close>

definition hex_digit :: "nat \<Rightarrow> char" where
  "hex_digit d = ''0123456789abcdef'' ! d"

fun hex_digits :: "nat \<Rightarrow> string" where
  "hex_digits n = (if n < 16 then [hex_digit n] else hex_digits (n div 16) @ [hex_digit (n mod 16)])"

declare hex_digits.simps [simp del]

definition hex :: "int \<Rightarrow> string" where
  "hex n = (if n < 0 then ''-0x'' @ hex_digits (nat (- n)) else ''0x'' @ hex_digits (nat n))"

text \<open>
  \<open>int(s, 16)\<close> on a \<open>str\<close>, as CPython computes it. First every character from code point
  127 on is replaced: a Unicode white space by a blank, a Unicode decimal digit by the ASCII
  digit of its value, anything else by \<open>?\<close> (which no literal contains). The decimal digits
  of Unicode 14 come in blocks of ten consecutive code points, listed by their first one.
  Then the literal is read: ASCII white space, an optional sign, an optional \<open>0x\<close> or \<open>0X\<close>
  (after which one underscore may follow), digits of value below 16 with single
  underscores between them, and white space up to the end. Anything else raises
  \<open>ValueError\<close>, here \<open>None\<close>.
\<close>

definition unicode_space :: "nat list" where
  "unicode_space =
     [0x85, 0xA0, 0x1680, 0x2000, 0x2001, 0x2002, 0x2003, 0x2004, 0x2005, 0x2006, 0x2007,
      0x2008, 0x2009, 0x200A, 0x2028, 0x2029, 0x202F, 0x205F, 0x3000]"

definition unicode_decimal_blocks :: "nat list" where
  "unicode_decimal_blocks =
     [0x660, 0x6F0, 0x7C0, 0x966, 0x9E6, 0xA66, 0xAE6, 0xB66,
      0xBE6, 0xC66, 0xCE6, 0xD66, 0xDE6, 0xE50, 0xED0, 0xF20,
      0x1040, 0x1090, 0x17E0, 0x1810, 0x1946, 0x19D0, 0x1A80, 0x1A90,
      0x1B50, 0x1BB0, 0x1C40, 0x1C50, 0xA620, 0xA8D0, 0xA900, 0xA9D0,
      0xA9F0, 0xAA50, 0xABF0, 0xFF10, 0x104A0, 0x10D30, 0x11066, 0x110F0,
      0x11136, 0x111D0, 0x112F0, 0x11450, 0x114D0, 0x11650, 0x116C0, 0x11730,
      0x118E0, 0x11950, 0x11C50, 0x11D50, 0x11DA0, 0x16A60, 0x16AC0, 0x16B50,
      0x1D7CE, 0x1D7D8, 0x1D7E2, 0x1D7EC, 0x1D7F6, 0x1E140, 0x1E2F0, 0x1E950,
      0x1FBF0]"

definition to_ascii :: "nat \<Rightarrow> nat" where
  "to_ascii c =
     (if c < 127 then c
      else if c \<in> set unicode_space then 32
      else (case find (\<lambda>b. b \<le> c \<and> c < b + 10) unicode_decimal_blocks of
              Some b \<Rightarrow> 48 + (c - b)
            | None \<Rightarrow> 63))"

definition isspace :: "nat \<Rightarrow> bool" where
  "isspace c = (c = 32 \<or> (9 \<le> c \<and> c \<le> 13))"

definition digit_value :: "nat \<Rightarrow> nat" where
  "digit_value c =
     (if 48 \<le> c \<and> c \<le> 57 then c - 48
      else if 97 \<le> c \<and> c \<le> 122 then c - 87
      else if 65 \<le> c \<and> c \<le> 90 then c - 55
      else 37)"

fun double_underscore :: "nat list \<Rightarrow> bool" where
  "double_underscore (a # b # cs) = ((a = 95 \<and> b = 95) \<or> double_underscore (b # cs))"
| "double_underscore _ = False"

definition int16 :: "str \<Rightarrow> int option" where
  "int16 s =
     (let s0 = dropWhile isspace (map to_ascii s);
          negative = (take 1 s0 = [45]);
          s1 = (if take 1 s0 = [43] \<or> take 1 s0 = [45] then drop 1 s0 else s0);
          s2 = (if take 1 s1 = [48] \<and> (take 1 (drop 1 s1) = [120] \<or> take 1 (drop 1 s1) = [88])
                then (if take 1 (drop 2 s1) = [95] then drop 3 s1 else drop 2 s1)
                else s1);
          body = takeWhile (\<lambda>c. digit_value c < 16 \<or> c = 95) s2;
          rest = dropWhile (\<lambda>c. digit_value c < 16 \<or> c = 95) s2
      in if body = [] \<or> hd body = 95 \<or> last body = 95 \<or> double_underscore body
            \<or> dropWhile isspace rest \<noteq> []
         then None
         else
           (let v = foldl (\<lambda>v c. 16 * v + int (digit_value c)) 0 (filter (\<lambda>c. c \<noteq> 95) body)
            in Some (if negative then - v else v)))"

section \<open>Decoding an NMEA sentence\<close>

text \<open>The attributes of an \<open>NMEA_message\<close>; \<open>correct\<close> is never set and stays \<open>False\<close>.\<close>

record NMEA_message =
  nmea_correct :: bool
  nmea_data :: str
  nmea_raw_data :: str
  talker_id :: str
  msg_type :: str
  nmea_checksum :: str

datatype data = Str str | Bytes bytes

text \<open>
  \<^verbatim>\<open>
  def __init__(self, data):
      if type(data) != str:
          data = data.decode()
      self.raw_data = data
      self.talker_id = data[:2]
      self.msg_type = data[2:5]
      self.data = data[6:-5]
      nmea_data, chk = data.split('*')
      checksum = 0
      for s in nmea_data:
          checksum ^= ord(s)
      checksum = hex(checksum)
      self.checksum = chk[:-2]
      parsed_checksum = hex(int(self.checksum, 16))
      if checksum != parsed_checksum:
          raise ValueError(f"checksum {checksum} is not {parsed_checksum}")
  \<close>
  The unpacking of \<open>data.split('*')\<close> into two names raises \<open>ValueError\<close> unless there are
  exactly two parts. The character \<open>*\<close> is code point 42.
\<close>

definition NMEA_message_str :: "str \<Rightarrow> error + NMEA_message" where
  "NMEA_message_str data =
     (case split 42 data of
        [nmea, chk] \<Rightarrow>
          (let checksum = hex (foldl (\<lambda>checksum s. checksum XOR int s) 0 nmea);
               field = take (length chk - 2) chk
           in case int16 field of
                None \<Rightarrow> Inl (ValueError (InvalidLiteral field))
              | Some parsed \<Rightarrow>
                  if checksum \<noteq> hex parsed then Inl (ValueError (NmeaChecksum checksum (hex parsed)))
                  else Inr \<lparr>nmea_correct = False,
                            nmea_data = drop 6 (take (length data - 5) data),
                            nmea_raw_data = data,
                            talker_id = take 2 data,
                            msg_type = take 3 (drop 2 data),
                            nmea_checksum = field\<rparr>)
      | parts \<Rightarrow> Inl (ValueError (Unpack (length parts))))"

fun NMEA_message_init :: "data \<Rightarrow> error + NMEA_message" where
  "NMEA_message_init (Str s) = NMEA_message_str s"
| "NMEA_message_init (Bytes b) =
     (case decode b of
        None \<Rightarrow> Inl (ValueError UnicodeDecode)
      | Some s \<Rightarrow> NMEA_message_str s)"

section \<open>The stream parser\<close>

text \<open>
  The attributes of a \<open>UBX_receiver\<close> the parser works on: \<open>current_parse\<close> is \<open>None\<close>,
  \<open>"UBX"\<close> or \<open>"NMEA"\<close>; \<open>parse_data\<close> is the list of the one-byte reads collected so far;
  \<open>last_byte\<close> is the byte read last while idle, \<open>None\<close> before the first one.
  \<^verbatim>\<open>
  def reset_data(self):
      self.parse_data = []
      self.current_parse = None
  \<close>
\<close>

datatype parse_mode = UBX | NMEA

record UBX_receiver =
  current_parse :: "parse_mode option"
  parse_data :: bytes
  last_byte :: "byte option"

definition reset_data :: "UBX_receiver \<Rightarrow> UBX_receiver" where
  "reset_data r = r\<lparr>parse_data := [], current_parse := None\<rparr>"

text \<open>
  What \<open>parse\<close> returns: a message object, or one of the strings
  \<open>f"invalid ubx-message! ({err})"\<close> and \<open>"invalid nmea-message!"\<close>.
\<close>

datatype message =
    UbxMessage UBX_message
  | InvalidUbx value_error
  | NmeaMessage NMEA_message
  | InvalidNmea

text \<open>
  \<^verbatim>\<open>
  def parse(self):
      while (self.port.in_waiting > 0):  # non blocking read
          logging.debug(f"mode: {self.current_parse} data {self.parse_data}")
          byte = self.port.read()
          logging.debug(f"byte: {byte} lastbyte: {self.last_byte}")
          if (self.current_parse == None):
              if (byte == b'\x62' and self.last_byte == b'\xB5'):
                  self.current_parse = "UBX"
                  self.parse_data = []
                  logging.debug("received UBX start frame")
              elif (byte == b'G' and self.last_byte == b'$'):
                  self.current_parse = "NMEA"
                  self.parse_data = [b'G']
                  logging.debug("received NMEA start frame")
              self.last_byte = byte
              return
          if (self.current_parse == "UBX"):
              self.parse_data.append(byte)
              if (len(self.parse_data) >= 4):
                  length = int.from_bytes(self.parse_data[2] + self.parse_data[3], 'little')
                  ubx_length = length
                  if (len(self.parse_data) == (ubx_length + 6)):
                      data_string = b''.join(self.parse_data)
                      try:
                          message = UBX_message(data_string)
                      except ValueError as err:
                          message = f"invalid ubx-message! ({err})"
                      self.reset_data()
                      return message
          if (self.current_parse == "NMEA"):
              self.parse_data.append(byte)
              if (byte == b'\n'):
                  data_string = b''.join(self.parse_data)
                  try:
                      message = NMEA_message(data_string)
                  except ValueError:
                      message = "invalid nmea-message!"
                  self.reset_data()
                  return message
  \<close>
  The port is the list of the bytes waiting to be read: \<open>in_waiting > 0\<close> is a non-empty
  list, \<open>read()\<close> takes its first byte (a failure of the serial port is not modelled). The
  debug logs format \<open>None\<close>, a \<open>str\<close>, a \<open>bytes\<close> and a list of \<open>bytes\<close>, which never raises;
  they are not modelled. \<open>parse\<close> returns what the call returns (\<open>None\<close> when
  it returns nothing or the loop runs out of bytes) or the exception that escapes it, the
  receiver after the call and the bytes still waiting. Only \<open>ValueError\<close> is caught: any
  other exception of a decoder escapes before \<open>reset_data\<close> runs. In the mode \<open>"UBX"\<close> the
  test for \<open>"NMEA"\<close> that follows is false, so the loop goes on with the next byte.
\<close>

fun parse :: "UBX_receiver \<Rightarrow> bytes \<Rightarrow> (error + message option) \<times> UBX_receiver \<times> bytes" where
  "parse r [] = (Inr None, r, [])"
| "parse r (byte # rx) =
     (case current_parse r of
        None \<Rightarrow>
          (Inr None,
           (if byte = 0x62 \<and> last_byte r = Some 0xB5
            then r\<lparr>current_parse := Some UBX, parse_data := []\<rparr>
            else if byte = 0x47 \<and> last_byte r = Some 0x24
            then r\<lparr>current_parse := Some NMEA, parse_data := [0x47]\<rparr>
            else r)\<lparr>last_byte := Some byte\<rparr>,
           rx)
      | Some UBX \<Rightarrow>
          (let r1 = r\<lparr>parse_data := parse_data r @ [byte]\<rparr>
           in if length (parse_data r1) \<ge> 4
              then
                (let ubx_length = from_bytes_little [parse_data r1 ! 2, parse_data r1 ! 3]
                 in if length (parse_data r1) = ubx_length + 6
                    then
                      (case UBX_message_init (parse_data r1) of
                         Inr m \<Rightarrow> (Inr (Some (UbxMessage m)), reset_data r1, rx)
                       | Inl (ValueError err) \<Rightarrow> (Inr (Some (InvalidUbx err)), reset_data r1, rx)
                       | Inl e \<Rightarrow> (Inl e, r1, rx))
                    else parse r1 rx)
              else parse r1 rx)
      | Some NMEA \<Rightarrow>
          (let r1 = r\<lparr>parse_data := parse_data r @ [byte]\<rparr>
           in if byte = 0x0A
              then
                (case NMEA_message_init (Bytes (parse_data r1)) of
                   Inr m \<Rightarrow> (Inr (Some (NmeaMessage m)), reset_data r1, rx)
                 | Inl (ValueError err) \<Rightarrow> (Inr (Some InvalidNmea), reset_data r1, rx)
                 | Inl e \<Rightarrow> (Inl e, r1, rx))
              else parse r1 rx))"

text \<open>
  Feeding a byte sequence one byte at a time: before each call of \<open>parse\<close> exactly one byte
  is waiting in the port. The results of the calls are collected in order; an exception
  that escapes \<open>parse\<close> ends the feeding.
\<close>

fun feed :: "UBX_receiver \<Rightarrow> bytes \<Rightarrow> (error + message option) list \<times> UBX_receiver" where
  "feed r [] = ([], r)"
| "feed r (b # bs) =
     (case parse r [b] of
        (Inl e, r', _) \<Rightarrow> ([Inl e], r')
      | (Inr res, r', _) \<Rightarrow> (case feed r' bs of (ress, r'') \<Rightarrow> (Inr res # ress, r'')))"

(*THEOREMS*)

section \<open>Properties of the Fletcher checksum\<close>

lemma fletcher_index_loop:
  "foldl (fletcher_step msg) acc [k ..< length msg]
   = foldl (\<lambda>(a, b) x. (a + unat x, b + (a + unat x))) acc (drop k msg)"
proof (induction "length msg - k" arbitrary: k acc)
  case 0
  then show ?case by simp
next
  case (Suc n)
  then have k: "k < length msg" by simp
  have "[k ..< length msg] = k # [Suc k ..< length msg]"
    using k by (simp add: upt_conv_Cons)
  moreover have "drop k msg = msg ! k # drop (Suc k) msg"
    using k by (simp add: Cons_nth_drop_Suc)
  moreover have "n = length msg - Suc k"
    using Suc(2) by simp
  ultimately show ?case
    using Suc(1)[of "Suc k"] by (cases acc) (simp add: fletcher_step_def Let_def)
qed

lemma fletcher_mask_late:
  "foldl fletcher_recurrence_step (a mod 256, b mod 256) s
   = (case foldl (\<lambda>(a, b) x. (a + unat x, b + (a + unat x))) (a, b) s of
        (x, y) \<Rightarrow> (x mod 256, y mod 256))"
proof (induction s arbitrary: a b)
  case Nil
  then show ?case by simp
next
  case (Cons x s)
  have "fletcher_recurrence_step (a mod 256, b mod 256) x
        = ((a + unat x) mod 256, (b + (a + unat x)) mod 256)"
  proof -
    have A: "(a mod 256 + unat x) mod 256 = (a + unat x) mod 256"
      by (rule mod_add_left_eq)
    have B: "(b mod 256 + (a + unat x) mod 256) mod 256 = (b + (a + unat x)) mod 256"
      by (rule mod_add_eq)
    show ?thesis
      unfolding fletcher_recurrence_step_def by (simp only: prod.case Let_def A B)
  qed
  then show ?case
    using Cons[of "a + unat x" "b + (a + unat x)"] by simp
qed

lemma and_255_mod: "(n::nat) AND 255 = n mod 256"
  using take_bit_eq_mod[of 8 n] take_bit_eq_mask[of 8 n]
  by (simp add: mask_eq_exp_minus_1)

lemma length_fletcher_checksum: "length (fletcher_checksum msg) = 2"
  by (simp add: fletcher_checksum_def split: prod.splits)

lemma fletcher_checksum_drop:
  "fletcher_checksum msg = fletcher_recurrence (drop 2 msg)"
  using fletcher_mask_late[of 0 0 "drop 2 msg"]
  by (simp add: fletcher_checksum_def fletcher_recurrence_def fletcher_index_loop
      and_255_mod split: prod.splits)

text \<open>
  Claim C2, as stated: for every byte sequence \<open>s\<close> given to the checksum function, the
  result is the recurrence applied to every byte of \<open>s\<close>. The function skips the first
  two bytes of what it is given (the loop starts at index 2), so on the input
  \<open>01 02 03\<close> it returns \<open>03 03\<close> where the recurrence over all three bytes gives
  \<open>06 0A\<close>.
\<close>

theorem C2_all_bytes_counterexample:
  "fletcher_checksum [1, 2, 3] \<noteq> fletcher_recurrence [1, 2, 3]"
  by (simp add: fletcher_checksum_drop fletcher_recurrence_def fletcher_recurrence_step_def)

text \<open>
  Claim C2, amended: for every byte sequence \<open>msg\<close> given to the checksum function, the
  result is the pair \<open>(A, B)\<close> of the Fletcher recurrence applied, in order, to the bytes
  of \<open>msg\<close> from index 2 on; so for a frame \<open>s\<close> beginning at the class byte the function
  is given the two sync bytes followed by \<open>s\<close> and returns the recurrence over \<open>s\<close>.
\<close>

theorem C2_fletcher_checksum_recurrence:
  "fletcher_checksum msg = fletcher_recurrence (drop 2 msg)
   \<and> fletcher_checksum (s0 # s1 # s) = fletcher_recurrence s"
  by (simp add: fletcher_checksum_drop)

section \<open>Properties of the frame builder and the UBX decoder\<close>

lemma strip_sync_prepend: "strip_sync (sync @ f) = f"
  by (simp add: strip_sync_def sync_def)

lemma UBX_message_init_strip:
  "strip_sync a = strip_sync b \<Longrightarrow> UBX_message_init a = UBX_message_init b"
  unfolding UBX_message_init_def by simp

lemma ubx_msg_short:
  "length pl < 256 \<Longrightarrow>
   ubx_msg [c] [i] pl
   = Inr (sync @ [c, i, word_of_nat (length pl), 0] @ pl
          @ fletcher_checksum (sync @ [c, i, word_of_nat (length pl), 0] @ pl))"
  by (simp add: ubx_msg_def bytes_of_int_def Let_def)

lemma ubx_msg_long: "256 \<le> length pl \<Longrightarrow> ubx_msg c i pl = Inl (ValueError BytesRange)"
  by (simp add: ubx_msg_def bytes_of_int_def)

text \<open>
  For payloads of at most 255 bytes the builder and the decoder are inverse to each other:
  the frame built for class \<open>c\<close>, id \<open>i\<close> and payload \<open>pl\<close> decodes to a message with that
  class, id and payload.
\<close>

lemma ubx_msg_roundtrip_short:
  assumes "length pl < 256" and "ubx_msg [c] [i] pl = Inr frame"
  shows "\<exists>m. UBX_message_init frame = Inr m \<and> ubx_class m = c \<and> ubx_id m = i
             \<and> payload m = pl \<and> ubx_length m = length pl"
proof -
  let ?body = "[c, i, word_of_nat (length pl), 0] @ pl"
  let ?ck = "fletcher_checksum (sync @ ?body)"
  have frame: "frame = sync @ ?body @ ?ck"
    using assms ubx_msg_short[of pl c i] by simp
  have lck: "length ?ck = 2"
    by (rule length_fletcher_checksum)
  have strip: "strip_sync frame = ?body @ ?ck"
    unfolding frame by (rule strip_sync_prepend)
  have tk: "take (length (sync @ ?body @ ?ck) - 2) (sync @ ?body @ ?ck) = sync @ ?body"
    using lck by (simp add: sync_def)
  have dr: "drop (length (?body @ ?ck) - 2) (?body @ ?ck) = ?ck"
    using lck by simp
  have pl: "drop 4 (take (length (?body @ ?ck) - 2) (?body @ ?ck)) = pl"
    using lck by simp
  have len: "from_bytes_little (take 2 (drop 2 (?body @ ?ck))) = length pl"
    using assms(1) by (simp add: from_bytes_little_def unat_of_nat)
  show ?thesis
    unfolding UBX_message_init_def strip Let_def tk dr pl len
    by simp
qed

text \<open>
  Claim C1: for every class byte, id byte and payload of at most 65535 bytes, decoding the
  frame built by \<open>ubx_msg\<close> succeeds and gives back class, id and payload. The builder
  writes the length with \<open>bytes([len(payload)])\<close>, which raises \<open>ValueError\<close> from 256 on:
  for a payload of 256 zero bytes no frame is built at all, so there is nothing to decode.
\<close>

theorem C1_ubx_msg_fails_at_256:
  "ubx_msg [0x06] [0x8A] (replicate 256 0x00) = Inl (ValueError BytesRange)"
  by (simp add: ubx_msg_def bytes_of_int_def)

text \<open>
  Claim C3, as stated: a frame \<open>f\<close> without the sync marker and the same frame with the
  marker in front decode to the same result. The decoder strips a leading \<open>B5 62\<close> once,
  whatever it is: the frame \<open>B5 62 00 00 17 FA\<close> (class \<open>B5\<close>, id \<open>62\<close>, empty payload,
  checksum \<open>17 FA\<close>) decodes with the marker in front, and alone loses its class and id
  bytes to the stripping and fails the checksum.
\<close>

theorem C3_sync_like_class_counterexample:
  "UBX_message_init (sync @ [0xB5, 0x62, 0x00, 0x00, 0x17, 0xFA])
     = Inr \<lparr>correct = True, raw_data = [0xB5, 0x62, 0xB5, 0x62, 0x00, 0x00, 0x17, 0xFA],
             ubx_class = 0xB5, ubx_class_name = ''unknown'', ubx_id = 0x62,
             ubx_id_name = ''unknown'', ubx_length = 0, payload = []\<rparr>
   \<and> UBX_message_init [0xB5, 0x62, 0x00, 0x00, 0x17, 0xFA]
     = Inl (ValueError (WrongChecksum [0x00, 0x00] [0x17, 0xFA]))"
  by (simp add: UBX_message_init_def strip_sync_def sync_def fletcher_checksum_drop
      fletcher_recurrence_def fletcher_recurrence_step_def from_bytes_little_def
      or_unknown_def safeget_def ubx_msg_dict_def)

text \<open>
  Claim C3, amended: for every byte buffer \<open>f\<close> whose first two bytes are not \<open>B5 62\<close>,
  constructing a UBX message from \<open>f\<close> and from the sync marker followed by \<open>f\<close> give the
  same result: the same message, or the same exception.
\<close>

theorem C3_sync_marker_optional:
  "take 2 f \<noteq> sync \<Longrightarrow> UBX_message_init (sync @ f) = UBX_message_init f"
  by (rule UBX_message_init_strip) (simp add: strip_sync_prepend, simp add: strip_sync_def)

theorem C3_sync_marker_optional_witness:
  "take 2 [0x06, 0x04, 0x04, 0x00, 0x00, 0x00, 0x00, 0x00, 0x0E, 0x64 :: byte] \<noteq> sync
   \<and> UBX_message_init (sync @ [0x06, 0x04, 0x04, 0x00, 0x00, 0x00, 0x00, 0x00, 0x0E, 0x64])
     = UBX_message_init [0x06, 0x04, 0x04, 0x00, 0x00, 0x00, 0x00, 0x00, 0x0E, 0x64]"
  using C3_sync_marker_optional[of "[0x06, 0x04, 0x04, 0x00, 0x00, 0x00, 0x00, 0x00, 0x0E, 0x64]"]
  by (simp add: sync_def)

section \<open>Properties of the configuration writer\<close>






end
